theory Spec2Isabelle
  imports Complex_Main
begin

section \<open>The supervised command runner (\<open>call_cli\<close> in make.py)\<close>

text \<open>
  The three exceptions of make.py, with the arguments their constructors receive.
  \<open>ValueError\<close> is what Python's \<open>max\<close> raises on an empty list (used by
  \<open>build_typescript\<close>); \<open>UnicodeDecodeError\<close> is what \<open>bytes.decode("UTF-8")\<close>
  raises (lines 65 and 71); \<open>OtherException\<close> stands for any exception that
  \<open>process.communicate\<close> lets through besides \<open>TimeoutExpired\<close>.
  Clock readings (\<open>time.time()\<close>) and the limits are modelled as real numbers, so the
  sums \<open>now + max_hang\<close> and \<open>now + max_time\<close> are exact.
\<close>

datatype py_exception =
    CommandHung string real real
  | CommandTimeout string real
  | WrongReturnCode string int int
  | ValueError
  | UnicodeDecodeError
  | OtherException

text \<open>
  One turn of the \<open>while\<close> loop is one call of \<open>process.communicate(timeout=2.0)\<close>.
  What the call does is the environment's choice, so a run of the loop is driven by the
  list of the outcomes of the successive calls:
  \<^item> \<open>TimeoutExpired out err now\<close>: the call timed out; \<open>out\<close> and \<open>err\<close> are the
    exception's \<open>stdout\<close> and \<open>stderr\<close> attributes (the bytes captured so far, \<open>None\<close>
    while nothing has been captured), \<open>now\<close> is what \<open>time.time()\<close> returns at line 78;
  \<^item> \<open>Returned out err rc t\<close>: the process finished and the call returned the whole
    output, as text (the pipes are opened with \<open>text=True\<close>); a text is represented by
    its UTF-8 bytes. \<open>rc\<close> is \<open>process.returncode\<close>. The runner does not read the
    clock on this path: \<open>t\<close>, the time at which the call returned, is there for
    statements that speak about when the command finished;
  \<^item> \<open>PollRaised\<close>: the call raised something else.
\<close>

datatype poll =
    TimeoutExpired "string option" "string option" real
  | Returned string string int real
  | PollRaised

text \<open>
  Well-formed UTF-8, the byte sequences that the strict decoder of
  \<open>bytes.decode("UTF-8")\<close> accepts: no overlong form, no surrogate, nothing beyond
  U+10FFFF, no sequence cut short.
\<close>

definition continuation :: "nat \<Rightarrow> bool" where
  "continuation b = (128 \<le> b \<and> b \<le> 191)"

fun utf8_valid :: "nat list \<Rightarrow> bool" where
  "utf8_valid [] = True"
| "utf8_valid [b] = (b \<le> 127)"
| "utf8_valid [b, c] = (if b \<le> 127 then utf8_valid [c] else 194 \<le> b \<and> b \<le> 223 \<and> continuation c)"
| "utf8_valid [b, c, d] =
     (if b \<le> 127 then utf8_valid [c, d]
      else if 194 \<le> b \<and> b \<le> 223 then continuation c \<and> utf8_valid [d]
      else if b = 224 then 160 \<le> c \<and> c \<le> 191 \<and> continuation d
      else if b = 237 then 128 \<le> c \<and> c \<le> 159 \<and> continuation d
      else 225 \<le> b \<and> b \<le> 239 \<and> continuation c \<and> continuation d)"
| "utf8_valid (b # c # d # e # rest) =
     (if b \<le> 127 then utf8_valid (c # d # e # rest)
      else if 194 \<le> b \<and> b \<le> 223 then continuation c \<and> utf8_valid (d # e # rest)
      else if b = 224 then 160 \<le> c \<and> c \<le> 191 \<and> continuation d \<and> utf8_valid (e # rest)
      else if b = 237 then 128 \<le> c \<and> c \<le> 159 \<and> continuation d \<and> utf8_valid (e # rest)
      else if 225 \<le> b \<and> b \<le> 239 then continuation c \<and> continuation d \<and> utf8_valid (e # rest)
      else if b = 240 then
        144 \<le> c \<and> c \<le> 191 \<and> continuation d \<and> continuation e \<and> utf8_valid rest
      else if b = 244 then
        128 \<le> c \<and> c \<le> 143 \<and> continuation d \<and> continuation e \<and> utf8_valid rest
      else 241 \<le> b \<and> b \<le> 243 \<and> continuation c \<and> continuation d \<and> continuation e
           \<and> utf8_valid rest)"

text \<open>
  \<open>bytes.decode("UTF-8")\<close>. A decoded text is represented by its UTF-8 bytes, so a
  successful decoding returns the bytes as they are. The byte \<open>0x0A\<close> occurs in
  well-formed UTF-8 only as the newline character, so splitting the text at newlines and
  printing the pieces is splitting the bytes at \<open>0x0A\<close> and printing the pieces.
\<close>

definition decode_utf8 :: "string \<Rightarrow> py_exception + string" where
  "decode_utf8 bytes =
     (if utf8_valid (map of_char bytes) then Inr bytes else Inl UnicodeDecodeError)"

text \<open>\<open>str.split("\n")\<close>: the pieces between newlines, always at least one piece.\<close>

fun split_nl :: "string \<Rightarrow> string list" where
  "split_nl [] = [[]]"
| "split_nl (c # cs) =
     (if c = CHR 0x0A then [] # split_nl cs
      else (case split_nl cs of [] \<Rightarrow> [[c]] | l # ls \<Rightarrow> (c # l) # ls))"

text \<open>The slice \<open>lines[printed:-1]\<close> for a non-negative \<open>printed\<close>.\<close>

definition unprinted :: "string list \<Rightarrow> nat \<Rightarrow> string list" where
  "unprinted lines printed_lines = drop printed_lines (butlast lines)"

text \<open>Python's \<open>stdout and len(stdout) > last_stdout_len\<close>, as a truth value.\<close>

definition updated :: "string option \<Rightarrow> nat \<Rightarrow> bool" where
  "updated captured last_len =
     (case captured of None \<Rightarrow> False | Some s \<Rightarrow> s \<noteq> [] \<and> length s > last_len)"

text \<open>The local variables of \<open>call_cli\<close> that the loop changes, and what has been printed.\<close>

record loop_state =
  hang_end :: real
  last_stdout_len :: nat
  last_stderr_len :: nat
  printed_stdout_lines :: nat
  printed_stderr_lines :: nat
  console :: "string list"

text \<open>
  Lines 64-69 and 70-75: echo the new lines of one stream. The bytes are decoded only
  when the stream was updated; the decoding may raise.
\<close>

definition echo_stdout :: "string option \<Rightarrow> loop_state \<Rightarrow> py_exception + loop_state" where
  "echo_stdout captured st =
     (case captured of
        None \<Rightarrow> Inr st
      | Some stdout \<Rightarrow>
          if updated captured (last_stdout_len st) then
            (case decode_utf8 stdout of
               Inl e \<Rightarrow> Inl e
             | Inr text \<Rightarrow>
                 (let lines = split_nl text in
                  Inr (st\<lparr>console := console st
                           @ map (\<lambda>line. ''STDOUT > '' @ line)
                               (unprinted lines (printed_stdout_lines st)),
                         printed_stdout_lines := length lines,
                         last_stdout_len := length stdout\<rparr>)))
          else Inr st)"

definition echo_stderr :: "string option \<Rightarrow> loop_state \<Rightarrow> py_exception + loop_state" where
  "echo_stderr captured st =
     (case captured of
        None \<Rightarrow> Inr st
      | Some stderr \<Rightarrow>
          if updated captured (last_stderr_len st) then
            (case decode_utf8 stderr of
               Inl e \<Rightarrow> Inl e
             | Inr text \<Rightarrow>
                 (let lines = split_nl text in
                  Inr (st\<lparr>console := console st
                           @ map (\<lambda>line. ''STDERR > '' @ line)
                               (unprinted lines (printed_stderr_lines st)),
                         printed_stderr_lines := length lines,
                         last_stderr_len := length stderr\<rparr>)))
          else Inr st)"

text \<open>Lines 87-92: the output printed once \<open>communicate\<close> has returned.\<close>

definition print_remaining :: "string \<Rightarrow> string \<Rightarrow> loop_state \<Rightarrow> loop_state" where
  "print_remaining stdout stderr st =
     st\<lparr>console := console st
            @ map (\<lambda>line. ''STDOUT > '' @ line) (unprinted (split_nl stdout) (printed_stdout_lines st))
            @ map (\<lambda>line. ''STDERR > '' @ line) (unprinted (split_nl stderr) (printed_stderr_lines st))\<rparr>"

text \<open>
  How the \<open>while\<close> loop is left: by an exception, or with \<open>done = True\<close> and the
  process's return code. \<open>StillPolling\<close> says that the list of observations ended
  while the loop was still running.
\<close>

datatype loop_exit = LoopRaised py_exception | LoopDone int | StillPolling

fun poll_loop ::
  "string \<Rightarrow> real \<Rightarrow> real \<Rightarrow> real \<Rightarrow> real \<Rightarrow> loop_state \<Rightarrow> poll list \<Rightarrow> loop_state \<times> loop_exit"
where
  "poll_loop command max_hang max_time start absolute_end st [] = (st, StillPolling)"
| "poll_loop command max_hang max_time start absolute_end st (PollRaised # rest) =
     (st, LoopRaised OtherException)"
| "poll_loop command max_hang max_time start absolute_end st (Returned stdout stderr rc t # rest) =
     (print_remaining stdout stderr st, LoopDone rc)"
| "poll_loop command max_hang max_time start absolute_end st (TimeoutExpired stdout stderr now # rest) =
     (let stdout_updated = updated stdout (last_stdout_len st);
          stderr_updated = updated stderr (last_stderr_len st)
      in case echo_stdout stdout st of
           Inl e \<Rightarrow> (st, LoopRaised e)
         | Inr st1 \<Rightarrow>
             (case echo_stderr stderr st1 of
                Inl e \<Rightarrow> (st1, LoopRaised e)
              | Inr st2 \<Rightarrow>
                  if stdout_updated \<or> stderr_updated then
                    (let st3 = st2\<lparr>hang_end := now + max_hang\<rparr>
                     in if now > absolute_end
                        then (st3, LoopRaised (CommandTimeout command max_time))
                        else poll_loop command max_hang max_time start absolute_end st3 rest)
                  else if now > hang_end st2 then
                    (st2, LoopRaised (CommandHung command max_hang (now - start)))
                  else if now > absolute_end then
                    (st2, LoopRaised (CommandTimeout command max_time))
                  else poll_loop command max_hang max_time start absolute_end st2 rest))"

text \<open>
  What a call of \<open>call_cli\<close> leaves behind: the printed lines, whether it returned or
  which exception it raised, the arguments \<open>Popen\<close> was given, and the state of the
  process that \<open>Popen\<close> started. \<open>Popen\<close> is called with \<open>shell=True\<close>, so this
  process is the shell, \<open>/bin/sh -c command\<close>, and the processes that the shell starts to
  run the command are not it. \<open>Exited rc\<close>: \<open>communicate\<close> returned, the shell has
  ended with return code \<open>rc\<close>. \<open>Killed\<close>: \<open>process.kill()\<close> was called, which sends
  \<open>SIGKILL\<close> to the process that \<open>Popen\<close> started and to no other.
\<close>

datatype process_state = Running | Exited int | Killed

record run_result =
  printed :: "string list"
  outcome :: "py_exception + unit"
  child :: process_state
  popen_command :: string
  popen_cwd :: "string option"

text \<open>
  \<open>call_cli\<close>. \<open>start\<close> and \<open>now\<close> are the two readings of the clock at lines 42 and
  46. The result is \<open>None\<close> when the observations end before the loop does.
  The body of \<open>try\<close> is the loop followed by the check of the return code; \<open>except\<close>
  prints an empty line and raises again; \<open>finally\<close> kills the child unless \<open>done\<close>.
\<close>

definition call_cli ::
  "string \<Rightarrow> string option \<Rightarrow> real \<Rightarrow> real \<Rightarrow> int option \<Rightarrow> real \<Rightarrow> real \<Rightarrow> poll list
     \<Rightarrow> run_result option"
where
  "call_cli command directory max_hang max_time expected_return_code start now trace =
     (let absolute_end = now + max_time;
          st0 = \<lparr>hang_end = now + max_hang,
                 last_stdout_len = 0, last_stderr_len = 0,
                 printed_stdout_lines = 0, printed_stderr_lines = 0,
                 console = []\<rparr>
      in case poll_loop command max_hang max_time start absolute_end st0 trace of
           (st, StillPolling) \<Rightarrow> None
         | (st, LoopRaised e) \<Rightarrow>
             Some \<lparr>printed = console st @ [''''], outcome = Inl e, child = Killed,
                   popen_command = command, popen_cwd = directory\<rparr>
         | (st, LoopDone returncode) \<Rightarrow>
             (case expected_return_code of
                None \<Rightarrow>
                  Some \<lparr>printed = console st, outcome = Inr (), child = Exited returncode,
                        popen_command = command, popen_cwd = directory\<rparr>
              | Some expected \<Rightarrow>
                  if returncode \<noteq> expected then
                    Some \<lparr>printed = console st @ [''''],
                          outcome = Inl (WrongReturnCode command expected returncode),
                          child = Exited returncode,
                          popen_command = command, popen_cwd = directory\<rparr>
                  else
                    Some \<lparr>printed = console st, outcome = Inr (), child = Exited returncode,
                          popen_command = command, popen_cwd = directory\<rparr>))"

text \<open>
  The signature of \<open>call_cli\<close> gives every parameter but \<open>command\<close> a default:
  \<open>directory=None, max_hang=10.0, max_time=60.0, expected_return_code=0\<close>.
  Here \<open>None\<close> is a keyword the caller left out and \<open>Some v\<close> one it passed, so that
  \<open>Some None\<close> is an explicit Python \<open>None\<close>.
\<close>

definition call_cli_with_defaults ::
  "string \<Rightarrow> string option option \<Rightarrow> real option \<Rightarrow> real option \<Rightarrow> int option option
     \<Rightarrow> real \<Rightarrow> real \<Rightarrow> poll list \<Rightarrow> run_result option"
where
  "call_cli_with_defaults command directory max_hang max_time expected_return_code start now trace =
     call_cli command
       (case directory of None \<Rightarrow> None | Some d \<Rightarrow> d)
       (case max_hang of None \<Rightarrow> 10 | Some h \<Rightarrow> h)
       (case max_time of None \<Rightarrow> 60 | Some t \<Rightarrow> t)
       (case expected_return_code of None \<Rightarrow> Some 0 | Some e \<Rightarrow> e)
       start now trace"

section \<open>The rebuild decision (\<open>build_typescript\<close> in make.py)\<close>

text \<open>
  The part of the file system the function looks at: a file with its modification time,
  or a directory with its modification time and its entries in the order \<open>scandir\<close>
  lists them. A file system maps a path to the node found there, \<open>None\<close> when
  \<open>exists\<close> is false. Symbolic links are left out.
\<close>

datatype fs_node = File real | Dir real "(string \<times> fs_node) list"

type_synonym filesystem = "string \<Rightarrow> fs_node option"

fun getmtime :: "fs_node \<Rightarrow> real" where
  "getmtime (File m) = m"
| "getmtime (Dir m entries) = m"

text \<open>\<open>os.path.join\<close> of two components (posixpath).\<close>

definition join :: "string \<Rightarrow> string \<Rightarrow> string" where
  "join a b =
     (if b \<noteq> [] \<and> hd b = CHR ''/'' then b
      else if a = [] \<or> last a = CHR ''/'' then a @ b
      else a @ ''/'' @ b)"

fun dirnames :: "(string \<times> fs_node) list \<Rightarrow> string list" where
  "dirnames [] = []"
| "dirnames ((name, File m) # rest) = dirnames rest"
| "dirnames ((name, Dir m entries) # rest) = name # dirnames rest"

text \<open>
  The non-directory entries of a directory. The loop calls
  \<open>getmtime(join(directory, file))\<close> on each; the walk of the model hands over the
  entry's modification time together with its name, so that reading it is \<open>snd\<close>.
\<close>

fun filenames :: "(string \<times> fs_node) list \<Rightarrow> (string \<times> real) list" where
  "filenames [] = []"
| "filenames ((name, File m) # rest) = (name, m) # filenames rest"
| "filenames ((name, Dir m entries) # rest) = filenames rest"

text \<open>
  \<open>os.walk(top)\<close>, top-down: one triple per directory, the directory itself first,
  then the walks of its subdirectories in order. A \<open>top\<close> that is not a directory yields
  nothing (the error of \<open>scandir\<close> is ignored by default).
\<close>

type_synonym walk_entry = "string \<times> string list \<times> (string \<times> real) list"

fun walk :: "string \<Rightarrow> fs_node \<Rightarrow> walk_entry list"
  and walk_subdirs :: "string \<Rightarrow> (string \<times> fs_node) list \<Rightarrow> walk_entry list"
where
  "walk path (File m) = []"
| "walk path (Dir m entries) = (path, dirnames entries, filenames entries) # walk_subdirs path entries"
| "walk_subdirs path [] = []"
| "walk_subdirs path ((name, File m) # rest) = walk_subdirs path rest"
| "walk_subdirs path ((name, Dir m entries) # rest) =
     walk (join path name) (Dir m entries) @ walk_subdirs path rest"

definition os_walk :: "filesystem \<Rightarrow> string \<Rightarrow> walk_entry list" where
  "os_walk fs path = (case fs path of None \<Rightarrow> [] | Some node \<Rightarrow> walk path node)"

text \<open>
  Lines 118-120. The loop variable is called \<open>directory\<close>, like the parameter, so each
  turn rebinds the name; the loop returns its last value with the collected times.
\<close>

fun walk_loop :: "string \<Rightarrow> real list \<Rightarrow> walk_entry list \<Rightarrow> string \<times> real list" where
  "walk_loop directory directory_changed_times [] = (directory, directory_changed_times)"
| "walk_loop directory directory_changed_times ((dirpath, dirs, files) # rest) =
     walk_loop dirpath (directory_changed_times @ map snd files) rest"

text \<open>Python's \<open>max\<close> of a list: \<open>ValueError\<close> on the empty list.\<close>

fun py_max :: "real list \<Rightarrow> py_exception + real" where
  "py_max [] = Inl ValueError"
| "py_max (x # xs) = Inr (fold max xs x)"

text \<open>
  Lines 114-122: the value of \<open>should_build\<close>, with the value the name \<open>directory\<close>
  has once the decision is taken.
\<close>

definition should_build :: "filesystem \<Rightarrow> string \<Rightarrow> string \<Rightarrow> py_exception + (bool \<times> string)" where
  "should_build fs directory output_file =
     (case fs output_file of
        None \<Rightarrow> Inr (True, directory)
      | Some out \<Rightarrow>
          (let output_file_changed_time = getmtime out;
               (directory', directory_changed_times) = walk_loop directory [] (os_walk fs directory)
           in case py_max directory_changed_times of
                Inl e \<Rightarrow> Inl e
              | Inr directory_changed_time \<Rightarrow>
                  Inr (directory_changed_time > output_file_changed_time, directory')))"

text \<open>
  \<open>build_typescript\<close>: what it returns or raises, and the run of the compiler when
  there was one. \<open>None\<close> when the observations of that run end before it does.
\<close>

record build_result =
  returned :: "py_exception + bool"
  compile_run :: "run_result option"

definition build_typescript ::
  "filesystem \<Rightarrow> string \<Rightarrow> string \<Rightarrow> real \<Rightarrow> real \<Rightarrow> poll list \<Rightarrow> build_result option"
where
  "build_typescript fs directory output_file start now trace =
     (case should_build fs directory output_file of
        Inl e \<Rightarrow> Some \<lparr>returned = Inl e, compile_run = None\<rparr>
      | Inr (build, directory') \<Rightarrow>
          if build then
            (case call_cli_with_defaults ''tsc --pretty'' (Some (Some directory')) None None None
                    start now trace of
               None \<Rightarrow> None
             | Some run \<Rightarrow>
                 (case outcome run of
                    Inl e \<Rightarrow> Some \<lparr>returned = Inl e, compile_run = Some run\<rparr>
                  | Inr u \<Rightarrow> Some \<lparr>returned = Inr build, compile_run = Some run\<rparr>))
          else Some \<lparr>returned = Inr build, compile_run = None\<rparr>)"

section \<open>What the statements say about a run\<close>

text \<open>The number of bytes a poll has captured on a stream.\<close>

definition captured_len :: "string option \<Rightarrow> nat" where
  "captured_len captured = (case captured of None \<Rightarrow> 0 | Some s \<Rightarrow> length s)"

text \<open>
  \<open>finishes_by deadline trace\<close>: the command finishes, and neither the clock readings
  taken while it ran nor the time at which it finished are later than \<open>deadline\<close>.
\<close>

fun finishes_by :: "real \<Rightarrow> poll list \<Rightarrow> bool" where
  "finishes_by deadline [] = False"
| "finishes_by deadline (TimeoutExpired out err now # rest) =
     (now \<le> deadline \<and> finishes_by deadline rest)"
| "finishes_by deadline (Returned out err rc t # rest) = (t \<le> deadline)"
| "finishes_by deadline (PollRaised # rest) = False"

text \<open>The return code of the command, when it finishes.\<close>

fun exit_code :: "poll list \<Rightarrow> int option" where
  "exit_code [] = None"
| "exit_code (TimeoutExpired out err now # rest) = exit_code rest"
| "exit_code (Returned out err rc t # rest) = Some rc"
| "exit_code (PollRaised # rest) = None"


text \<open>
  \<open>never_silent max_hang since a b trace\<close>: the captured output never shrinks
  (\<open>a\<close> and \<open>b\<close> are the bytes captured on stdout and stderr at the previous poll), and
  at every poll of the running command either something has been captured since the
  previous poll, or no more than \<open>max_hang\<close> has passed since the poll that last
  captured something (\<open>since\<close>; at first, the start of the run).
\<close>

fun never_silent :: "real \<Rightarrow> real \<Rightarrow> nat \<Rightarrow> nat \<Rightarrow> poll list \<Rightarrow> bool" where
  "never_silent max_hang since a b [] = True"
| "never_silent max_hang since a b (TimeoutExpired out err now # rest) =
     (a \<le> captured_len out \<and> b \<le> captured_len err \<and>
      (if a + b < captured_len out + captured_len err
       then never_silent max_hang now (captured_len out) (captured_len err) rest
       else now \<le> since + max_hang \<and> never_silent max_hang since a b rest))"
| "never_silent max_hang since a b (Returned out err rc t # rest) = True"
| "never_silent max_hang since a b (PollRaised # rest) = True"




text \<open>
  The modification times of every file below a directory, however deep: the files of
  the directory's entries, and for an entry that is a directory, those below it.
\<close>

fun files_under :: "fs_node \<Rightarrow> real list"
  and files_in :: "(string \<times> fs_node) list \<Rightarrow> real list"
where
  "files_under (File m) = []"
| "files_under (Dir m entries) = files_in entries"
| "files_in [] = []"
| "files_in ((name, File m) # rest) = m # files_in rest"
| "files_in ((name, Dir m entries) # rest) = files_under (Dir m entries) @ files_in rest"

text \<open>
  The names of directory entries are not empty and hold no \<open>/\<close>.
\<close>

fun valid_names :: "fs_node \<Rightarrow> bool"
  and valid_entries :: "(string \<times> fs_node) list \<Rightarrow> bool"
where
  "valid_names (File m) = True"
| "valid_names (Dir m entries) = valid_entries entries"
| "valid_entries [] = True"
| "valid_entries ((name, File m) # rest) =
     (name \<noteq> [] \<and> CHR ''/'' \<notin> set name \<and> valid_entries rest)"
| "valid_entries ((name, Dir m entries) # rest) =
     (name \<noteq> [] \<and> CHR ''/'' \<notin> set name \<and> valid_names (Dir m entries) \<and> valid_entries rest)"

text \<open>What a poll has captured on a stream can be decoded.\<close>

definition captured_ok :: "string option \<Rightarrow> bool" where
  "captured_ok captured =
     (case captured of None \<Rightarrow> True | Some s \<Rightarrow> utf8_valid (map of_char s))"



section \<open>Lemmas about the loop and the walk\<close>












lemma poll_loop_done_exit_code:
  "snd (poll_loop command max_hang max_time start absolute_end st trace) = LoopDone rc \<Longrightarrow>
   exit_code trace = Some rc"
proof (induction trace arbitrary: st)
  case Nil
  then show ?case by simp
next
  case (Cons p rest)
  then show ?case
    by (cases p) (auto simp: Let_def split: if_splits sum.splits)
qed


lemma walk_loop_times:
  "snd (walk_loop d acc ws) = acc @ concat (map (\<lambda>e. map snd (snd (snd e))) ws)"
  by (induction d acc ws rule: walk_loop.induct) simp_all

lemma walk_loop_directory:
  "fst (walk_loop d acc ws) = (if ws = [] then d else fst (last ws))"
  by (induction d acc ws rule: walk_loop.induct) simp_all

lemma walk_files:
  "set (files_under node) = set (concat (map (\<lambda>e. map snd (snd (snd e))) (walk path node)))"
  "set (files_in entries) =
     set (map snd (filenames entries))
     \<union> set (concat (map (\<lambda>e. map snd (snd (snd e))) (walk_subdirs path entries)))"
  by (induction path node and path entries rule: walk_walk_subdirs.induct) auto

lemma py_max_Max:
  assumes "xs \<noteq> []"
  shows "py_max xs = Inr (Max (set xs))"
proof (cases xs)
  case Nil
  with assms show ?thesis by simp
next
  case (Cons x rest)
  then show ?thesis using Max.set_eq_fold [of x rest] by simp
qed

lemma length_join: "name \<noteq> [] \<Longrightarrow> CHR ''/'' \<notin> set name \<Longrightarrow> length path < length (join path name)"
  by (cases name) (auto simp: join_def)

lemma walk_paths_longer:
  "valid_names node \<Longrightarrow> \<forall>e \<in> set (walk path node). length path \<le> length (fst e)"
  "valid_entries entries \<Longrightarrow> \<forall>e \<in> set (walk_subdirs path entries). length path < length (fst e)"
proof (induction path node and path entries rule: walk_walk_subdirs.induct)
  case (5 path name m entries rest)
  from "5.prems" have nm: "name \<noteq> []" "CHR ''/'' \<notin> set name"
    and v1: "valid_names (Dir m entries)" and v2: "valid_entries rest" by simp_all
  have "length path < length (join path name)" using nm by (rule length_join)
  with "5.IH"(1) [OF v1] "5.IH"(2) [OF v2] show ?case by fastforce
qed (auto simp: less_imp_le)

lemma walk_subdirs_nonempty: "dirnames entries \<noteq> [] \<Longrightarrow> walk_subdirs path entries \<noteq> []"
  by (induction entries rule: dirnames.induct) simp_all

lemma last_walk_differs:
  assumes "valid_names (Dir m entries)" "dirnames entries \<noteq> []"
  shows "fst (last (walk path (Dir m entries))) \<noteq> path"
proof -
  have ne: "walk_subdirs path entries \<noteq> []" using assms(2) by (rule walk_subdirs_nonempty)
  then have "last (walk path (Dir m entries)) \<in> set (walk_subdirs path entries)" by simp
  moreover have "valid_entries entries" using assms(1) by simp
  ultimately have "length path < length (fst (last (walk path (Dir m entries))))"
    using walk_paths_longer(2) by blast
  then show ?thesis by auto
qed

lemma collected_times:
  "fs directory = Some tree \<Longrightarrow>
   set (snd (walk_loop directory [] (os_walk fs directory))) = set (files_under tree)"
  by (simp add: os_walk_def walk_loop_times walk_files(1) [of tree directory])

lemmas run_defs = call_cli_def echo_stdout_def echo_stderr_def updated_def unprinted_def
  print_remaining_def captured_len_def decode_utf8_def continuation_def captured_ok_def

lemmas build_defs = should_build_def build_typescript_def call_cli_with_defaults_def os_walk_def
  join_def

section \<open>The claims\<close>

text \<open>
  Claim C1 (every complete line is echoed exactly once). The code loses a line.
  The command writes \<open>a\<close> and a newline before the first poll, then \<open>b\<close>, \<open>c\<close>, each
  with its newline, and exits with code 0, well within both limits. The poll prints
  \<open>a\<close> and sets \<open>printed_stdout_lines = len(lines) = 2\<close>, counting the empty piece
  after the newline; the final slice \<open>lines[2:-1]\<close> of \<open>[a, b, c, '']\<close> is \<open>[c]\<close>, so
  the complete line \<open>b\<close> is never echoed.
\<close>

theorem echo_skips_line_after_poll:
  "finishes_by (0 + 60) [TimeoutExpired (Some ''a\<newline>'') None 2,
        Returned ''a\<newline>b\<newline>c\<newline>'' '''' 0 3]
   \<and> never_silent 10 0 0 0 [TimeoutExpired (Some ''a\<newline>'') None 2,
        Returned ''a\<newline>b\<newline>c\<newline>'' '''' 0 3]
   \<and> exit_code [TimeoutExpired (Some ''a\<newline>'') None 2,
        Returned ''a\<newline>b\<newline>c\<newline>'' '''' 0 3] = Some 0
   \<and> call_cli ''printf'' None 10 60 (Some 0) 0 0
       [TimeoutExpired (Some ''a\<newline>'') None 2,
        Returned ''a\<newline>b\<newline>c\<newline>'' '''' 0 3]
     = Some \<lparr>printed = [''STDOUT > a'', ''STDOUT > c''], outcome = Inr (), child = Exited 0,
             popen_command = ''printf'', popen_cwd = None\<rparr>"
  by (simp add: run_defs)














text \<open>
  Claim C7 (the staleness decision). For a source directory with at least one file
  below it, \<open>should_build\<close> is true when the output path does not exist, and otherwise
  true exactly when the greatest modification time of the files below the directory,
  however deep, is strictly later than that of the output path. When
  \<open>build_typescript\<close> returns, it returns this value.
\<close>

theorem should_build_decision:
  assumes "fs directory = Some tree" and "files_under tree \<noteq> []"
  shows "map_sum id fst (should_build fs directory output_file)
         = Inr (case fs output_file of
                  None \<Rightarrow> True
                | Some out \<Rightarrow> Max (set (files_under tree)) > getmtime out)
     \<and> (\<forall>result b. build_typescript fs directory output_file start now trace = Some result
            \<and> returned result = Inr b
          \<longrightarrow> b = (case fs output_file of
                  None \<Rightarrow> True
                | Some out \<Rightarrow> Max (set (files_under tree)) > getmtime out))"
proof -
  let ?decision = "case fs output_file of
                  None \<Rightarrow> True
                | Some out \<Rightarrow> Max (set (files_under tree)) > getmtime out"
  have dec: "map_sum id fst (should_build fs directory output_file) = Inr ?decision"
  proof (cases "fs output_file")
    case None
    then show ?thesis by (simp add: should_build_def)
  next
    case (Some out)
    obtain d times where wl: "walk_loop directory [] (os_walk fs directory) = (d, times)"
      by (cases "walk_loop directory [] (os_walk fs directory)")
    with collected_times [of fs directory tree, OF assms(1)]
    have eq: "set times = set (files_under tree)" by simp
    with assms(2) have "times \<noteq> []" by auto
    then have "py_max times = Inr (Max (set times))" by (rule py_max_Max)
    with Some wl eq show ?thesis by (simp add: should_build_def)
  qed
  then obtain d where sb: "should_build fs directory output_file = Inr (?decision, d)"
    by (cases "should_build fs directory output_file") auto
  have "b = ?decision"
    if "build_typescript fs directory output_file start now trace = Some result"
      and "returned result = Inr b" for result b
    using that unfolding build_typescript_def sb
    by (auto split: if_splits option.splits sum.splits)
  with dec show ?thesis by blast
qed

text \<open>Claim C7 at a tree whose only newer file lies two directories deep.\<close>

theorem should_build_decision_witness:
  "[''site/typescript.js'' \<mapsto> File 5,
    ''typescript'' \<mapsto> Dir 1 [(''a.ts'', File 3),
                              (''sub'', Dir 2 [(''deep'', Dir 2 [(''b.ts'', File 9)])])]]
     ''typescript''
   = Some (Dir 1 [(''a.ts'', File 3), (''sub'', Dir 2 [(''deep'', Dir 2 [(''b.ts'', File 9)])])])
   \<and> files_under (Dir 1 [(''a.ts'', File 3), (''sub'', Dir 2 [(''deep'', Dir 2 [(''b.ts'', File 9)])])])
       \<noteq> []
   \<and> build_typescript
        [''site/typescript.js'' \<mapsto> File 5,
         ''typescript'' \<mapsto> Dir 1 [(''a.ts'', File 3),
                              (''sub'', Dir 2 [(''deep'', Dir 2 [(''b.ts'', File 9)])])]]
        ''typescript'' ''site/typescript.js'' 0 0 [Returned '''' '''' 0 1]
      = Some \<lparr>returned = Inr True,
              compile_run = Some \<lparr>printed = [], outcome = Inr (), child = Exited 0,
                popen_command = ''tsc --pretty'', popen_cwd = Some ''typescript/sub/deep''\<rparr>\<rparr>
   \<and> map_sum id fst (should_build
        [''site/typescript.js'' \<mapsto> File 5,
         ''typescript'' \<mapsto> Dir 1 [(''a.ts'', File 3),
                              (''sub'', Dir 2 [(''deep'', Dir 2 [(''b.ts'', File 9)])])]]
        ''typescript'' ''site/typescript.js'')
      = Inr True"
proof -
  let ?tree = "Dir 1 [(''a.ts'', File 3), (''sub'', Dir 2 [(''deep'', Dir 2 [(''b.ts'', File 9)])])]"
  let ?fs = "[''site/typescript.js'' \<mapsto> File 5, ''typescript'' \<mapsto> ?tree]"
  have h1: "?fs ''typescript'' = Some ?tree" by simp
  have h2: "files_under ?tree \<noteq> []" by simp
  have run: "build_typescript ?fs ''typescript'' ''site/typescript.js'' 0 0 [Returned '''' '''' 0 1]
      = Some \<lparr>returned = Inr True,
              compile_run = Some \<lparr>printed = [], outcome = Inr (), child = Exited 0,
                popen_command = ''tsc --pretty'', popen_cwd = Some ''typescript/sub/deep''\<rparr>\<rparr>"
    by (simp add: build_defs run_defs)
  from should_build_decision [where fs = ?fs and directory = "''typescript''" and tree = ?tree
      and output_file = "''site/typescript.js''" and start = 0 and now = 0
      and trace = "[Returned '''' '''' 0 1]", OF h1 h2] h1 h2 run
  show ?thesis by simp
qed

text \<open>
  Claim C8 (the final flush includes an unterminated last line). The code does not
  print it: the slice \<open>lines[printed_stdout_lines:-1]\<close> at line 88 drops the last piece
  also when the output does not end in a newline. A command that writes \<open>abc\<close> without
  a newline and exits with code 0 has nothing echoed.
\<close>

theorem unterminated_last_line_not_printed:
  "call_cli ''printf abc'' None 10 60 (Some 0) 0 0 [Returned ''abc'' '''' 0 1]
     = Some \<lparr>printed = [], outcome = Inr (), child = Exited 0,
             popen_command = ''printf abc'', popen_cwd = None\<rparr>"
  by (simp add: run_defs)

text \<open>
  Claim C9 (empty source directory). If the output file exists and no file lies below
  the source directory (or the directory is missing), the decision raises
  \<open>ValueError\<close> from \<open>max\<close>, and so does \<open>build_typescript\<close>, without running the
  compiler.
\<close>

theorem empty_directory_raises:
  assumes "fs output_file = Some out"
    and "case fs directory of None \<Rightarrow> True | Some tree \<Rightarrow> files_under tree = []"
  shows "should_build fs directory output_file = Inl ValueError
     \<and> build_typescript fs directory output_file start now trace
       = Some \<lparr>returned = Inl ValueError, compile_run = None\<rparr>"
proof -
  obtain d times where wl: "walk_loop directory [] (os_walk fs directory) = (d, times)"
    by (cases "walk_loop directory [] (os_walk fs directory)")
  have "times = []"
  proof (cases "fs directory")
    case None
    with wl show ?thesis by (simp add: os_walk_def)
  next
    case (Some tree)
    with assms(2) collected_times [of fs directory tree, OF Some] wl show ?thesis by simp
  qed
  with wl assms(1) have "should_build fs directory output_file = Inl ValueError"
    by (simp add: should_build_def)
  then show ?thesis by (simp add: build_typescript_def)
qed

text \<open>Claim C9 at a directory that holds one empty subdirectory.\<close>

theorem empty_directory_raises_witness:
  "[''site/test.js'' \<mapsto> File 5, ''tests'' \<mapsto> Dir 1 [(''empty'', Dir 2 [])]] ''site/test.js''
     = Some (File 5)
   \<and> (case [''site/test.js'' \<mapsto> File 5, ''tests'' \<mapsto> Dir 1 [(''empty'', Dir 2 [])]] ''tests'' of
        None \<Rightarrow> True | Some tree \<Rightarrow> files_under tree = [])
   \<and> build_typescript [''site/test.js'' \<mapsto> File 5, ''tests'' \<mapsto> Dir 1 [(''empty'', Dir 2 [])]]
        ''tests'' ''site/test.js'' 0 0 []
      = Some \<lparr>returned = Inl ValueError, compile_run = None\<rparr>"
proof -
  let ?fs = "[''site/test.js'' \<mapsto> File 5, ''tests'' \<mapsto> Dir 1 [(''empty'', Dir 2 [])]]"
  have h1: "?fs ''site/test.js'' = Some (File 5)" by simp
  have h2: "case ?fs ''tests'' of None \<Rightarrow> True | Some tree \<Rightarrow> files_under tree = []" by simp
  from empty_directory_raises [where fs = ?fs and output_file = "''site/test.js''" and out = "File 5"
      and directory = "''tests''" and start = 0 and now = 0 and trace = "[]", OF h1 h2] h1 h2
  show ?thesis by simp
qed

text \<open>
  Claim C10 (the loop variable shadows the parameter). If the output file exists, the
  source directory has a subdirectory and a rebuild is decided, the compiler is started
  with the last directory of the walk as its working directory, and that is not the
  directory the caller passed.
\<close>

theorem compiler_runs_in_last_walked_directory:
  assumes "fs output_file = Some out"
    and "fs directory = Some (Dir m entries)"
    and "valid_names (Dir m entries)"
    and "dirnames entries \<noteq> []"
    and "should_build fs directory output_file = Inr (True, d)"
    and "build_typescript fs directory output_file start now trace = Some result"
  shows "\<exists>run. compile_run result = Some run
           \<and> popen_command run = ''tsc --pretty''
           \<and> popen_cwd run = Some (fst (last (os_walk fs directory)))
           \<and> fst (last (os_walk fs directory)) \<noteq> directory"
proof -
  have walk_eq: "os_walk fs directory = walk directory (Dir m entries)"
    using assms(2) by (simp add: os_walk_def)
  have differs: "fst (last (os_walk fs directory)) \<noteq> directory"
    unfolding walk_eq using assms(3,4) by (rule last_walk_differs)
  obtain d' times where wl: "walk_loop directory [] (os_walk fs directory) = (d', times)"
    by (cases "walk_loop directory [] (os_walk fs directory)")
  from walk_loop_directory [of directory "[]" "os_walk fs directory"] wl walk_eq
  have d': "d' = fst (last (os_walk fs directory))" by simp
  from assms(1,5) wl have "d = d'"
    by (auto simp: should_build_def split: sum.splits)
  with d' have d: "d = fst (last (os_walk fs directory))" by simp
  obtain run where run:
    "call_cli ''tsc --pretty'' (Some d) 10 60 (Some 0) start now trace = Some run"
    and res: "compile_run result = Some run"
    using assms(5,6)
    by (auto simp: build_typescript_def call_cli_with_defaults_def split: option.splits sum.splits)
  from run have "popen_command run = ''tsc --pretty''" "popen_cwd run = Some d"
    by (auto simp: call_cli_def split: prod.splits loop_exit.splits if_splits)
  with res d differs show ?thesis by simp
qed

text \<open>Claim C10 at a directory with one subdirectory.\<close>

theorem compiler_runs_in_last_walked_directory_witness:
  "[''site/typescript.js'' \<mapsto> File 5,
    ''typescript'' \<mapsto> Dir 1 [(''a.ts'', File 7), (''sub'', Dir 2 [(''b.ts'', File 3)])]]
     ''site/typescript.js'' = Some (File 5)
   \<and> valid_names (Dir 1 [(''a.ts'', File 7), (''sub'', Dir 2 [(''b.ts'', File 3)])])
   \<and> dirnames [(''a.ts'', File 7), (''sub'', Dir 2 [(''b.ts'', File 3)])] \<noteq> []
   \<and> should_build
        [''site/typescript.js'' \<mapsto> File 5,
         ''typescript'' \<mapsto> Dir 1 [(''a.ts'', File 7), (''sub'', Dir 2 [(''b.ts'', File 3)])]]
        ''typescript'' ''site/typescript.js'' = Inr (True, ''typescript/sub'')
   \<and> build_typescript
        [''site/typescript.js'' \<mapsto> File 5,
         ''typescript'' \<mapsto> Dir 1 [(''a.ts'', File 7), (''sub'', Dir 2 [(''b.ts'', File 3)])]]
        ''typescript'' ''site/typescript.js'' 0 0 [Returned '''' '''' 0 1]
      = Some \<lparr>returned = Inr True,
              compile_run = Some \<lparr>printed = [], outcome = Inr (), child = Exited 0,
                popen_command = ''tsc --pretty'', popen_cwd = Some ''typescript/sub''\<rparr>\<rparr>
   \<and> fst (last (os_walk
        [''site/typescript.js'' \<mapsto> File 5,
         ''typescript'' \<mapsto> Dir 1 [(''a.ts'', File 7), (''sub'', Dir 2 [(''b.ts'', File 3)])]]
        ''typescript'')) = ''typescript/sub''"
proof -
  let ?entries = "[(''a.ts'', File 7), (''sub'', Dir 2 [(''b.ts'', File 3)])]"
  let ?fs = "[''site/typescript.js'' \<mapsto> File 5, ''typescript'' \<mapsto> Dir 1 ?entries]"
  let ?result = "\<lparr>returned = Inr True,
              compile_run = Some \<lparr>printed = [], outcome = Inr (), child = Exited 0,
                popen_command = ''tsc --pretty'', popen_cwd = Some ''typescript/sub''\<rparr>\<rparr>"
  have h1: "?fs ''site/typescript.js'' = Some (File 5)" by simp
  have h2: "?fs ''typescript'' = Some (Dir 1 ?entries)" by simp
  have h3: "valid_names (Dir 1 ?entries)" by simp
  have h4: "dirnames ?entries \<noteq> []" by simp
  have h5: "should_build ?fs ''typescript'' ''site/typescript.js'' = Inr (True, ''typescript/sub'')"
    by (simp add: build_defs)
  have h6: "build_typescript ?fs ''typescript'' ''site/typescript.js'' 0 0 [Returned '''' '''' 0 1]
      = Some ?result"
    by (simp add: build_defs run_defs)
  from compiler_runs_in_last_walked_directory [where fs = ?fs and output_file = "''site/typescript.js''" and out = "File 5"
      and directory = "''typescript''" and m = 1 and entries = ?entries
      and d = "''typescript/sub''" and start = 0 and now = 0
      and trace = "[Returned '''' '''' 0 1]" and result = ?result, OF h1 h2 h3 h4 h5 h6]
    h1 h3 h4 h5 h6
  show ?thesis by simp
qed

end

